theory Spec2Isabelle
  imports Complex_Main "HOL-Library.AList"
begin

section \<open>Block-lag monitors: metrics aggregator\<close>

text \<open>
  The two monitor scripts (\<^verbatim>\<open>blocklag_monitor.py\<close> and \<^verbatim>\<open>blocklag_monitor_avax.py\<close>)
  are embedded side by side. Names of the first script are prefixed \<open>lm_\<close> (its class is
  \<^verbatim>\<open>LatencyMonitor\<close>), names of the second \<open>av_\<close> (\<^verbatim>\<open>AvaxMonitor\<close>).

  Python \<^verbatim>\<open>float\<close> values (wall-clock readings, elapsed times, running sums) are
  modelled as \<^typ>\<open>real\<close>: the arithmetic of the model is exact, rounding of IEEE doubles
  is not represented. Python \<^verbatim>\<open>int\<close> is \<^typ>\<open>int\<close>. Every method of the aggregators
  runs under the aggregator's single lock, so a run of the aggregator is a sequence of
  method calls, each applied to the state the previous one left.
\<close>

datatype py_error = IndexError | KeyError | AssertionError | TransportError | OtherError

subsection \<open>Python list slices\<close>

definition py_slice_from :: "'a list \<Rightarrow> int \<Rightarrow> 'a list" where
  \<comment> \<open>\<^verbatim>\<open>xs[i:]\<close>: a negative start counts from the end and is clipped at the front.\<close>
  "py_slice_from xs i =
     (if i < 0 then drop (nat (max 0 (int (length xs) + i))) xs else drop (nat i) xs)"

definition HISTORY_CAP :: nat where
  "HISTORY_CAP = 10000"

definition bound_history :: "'a list \<Rightarrow> 'a list" where
  \<comment> \<open>\<^verbatim>\<open>if len(h) > 10_000: h = h[-10_000:]\<close>\<close>
  "bound_history h =
     (if length h > HISTORY_CAP then py_slice_from h (- int HISTORY_CAP) else h)"

definition get_default :: "('k \<rightharpoonup> 'v) \<Rightarrow> 'k \<Rightarrow> 'v \<Rightarrow> 'v" where
  \<comment> \<open>\<^verbatim>\<open>d.get(k, default)\<close>; also the value of \<^verbatim>\<open>d[k]\<close> right after \<^verbatim>\<open>d.setdefault(k, default)\<close>\<close>
  "get_default d k v = (case d k of None \<Rightarrow> v | Some x \<Rightarrow> x)"

subsection \<open>\<^verbatim>\<open>LatencyMonitor\<close> (blocklag\_monitor.py)\<close>

text \<open>History entries are \<^verbatim>\<open>(timestamp_of_sample, lag_seconds, block_number)\<close>.\<close>

record latency_monitor =
  total_elapsed :: "string \<rightharpoonup> real"
  total_requests :: "string \<rightharpoonup> int"
  total_lag_seconds :: "string \<rightharpoonup> real"
  total_blocks :: "string \<rightharpoonup> int"
  lag_history :: "string \<rightharpoonup> (real \<times> int \<times> int) list"
  last_block_numbers :: "string \<rightharpoonup> int"

definition lm_init :: latency_monitor where
  "lm_init = \<lparr> total_elapsed = Map.empty, total_requests = Map.empty,
               total_lag_seconds = Map.empty, total_blocks = Map.empty,
               lag_history = Map.empty, last_block_numbers = Map.empty \<rparr>"

definition lm_update ::
  "latency_monitor \<Rightarrow> string \<Rightarrow> real \<Rightarrow> real \<Rightarrow> int \<Rightarrow> int \<Rightarrow> latency_monitor" where
  \<comment> \<open>each \<^verbatim>\<open>setdefault\<close> followed by \<^verbatim>\<open>+=\<close> or \<^verbatim>\<open>append\<close> on the same key is one map update\<close>
  "lm_update m endpoint sample_ts elapsed lag_seconds block_number =
     m \<lparr> total_elapsed := (total_elapsed m)
           (endpoint \<mapsto> get_default (total_elapsed m) endpoint 0 + elapsed),
         total_requests := (total_requests m)
           (endpoint \<mapsto> get_default (total_requests m) endpoint 0 + 1),
         total_lag_seconds := (total_lag_seconds m)
           (endpoint \<mapsto> get_default (total_lag_seconds m) endpoint 0 + of_int lag_seconds),
         total_blocks := (total_blocks m)
           (endpoint \<mapsto> get_default (total_blocks m) endpoint 0 + 1),
         lag_history := (lag_history m)
           (endpoint \<mapsto> bound_history
              (get_default (lag_history m) endpoint [] @ [(sample_ts, lag_seconds, block_number)])),
         last_block_numbers := (last_block_numbers m)(endpoint \<mapsto> block_number) \<rparr>"

definition lm_avg_latency_ms :: "latency_monitor \<Rightarrow> string \<Rightarrow> py_error + real" where
  \<comment> \<open>\<^verbatim>\<open>not self.total_requests.get(endpoint)\<close> holds for a missing key and for 0\<close>
  "lm_avg_latency_ms m endpoint =
     (case total_requests m endpoint of
        None \<Rightarrow> Inr 0
      | Some n \<Rightarrow>
          if n = 0 then Inr 0
          else (case total_elapsed m endpoint of
                  None \<Rightarrow> Inl KeyError
                | Some t \<Rightarrow> Inr ((t / of_int n) * 1000)))"

definition lm_avg_block_lag_seconds :: "latency_monitor \<Rightarrow> string \<Rightarrow> py_error + real" where
  "lm_avg_block_lag_seconds m endpoint =
     (case total_blocks m endpoint of
        None \<Rightarrow> Inr 0
      | Some n \<Rightarrow>
          if n = 0 then Inr 0
          else (case total_lag_seconds m endpoint of
                  None \<Rightarrow> Inl KeyError
                | Some t \<Rightarrow> Inr (t / of_int n)))"

subsection \<open>\<^verbatim>\<open>AvaxMonitor\<close> (blocklag\_monitor\_avax.py)\<close>

text \<open>History entries are \<^verbatim>\<open>(sample_ts, lag_seconds)\<close>.\<close>

record avax_monitor =
  av_total_elapsed :: "string \<rightharpoonup> real"
  av_total_requests :: "string \<rightharpoonup> int"
  av_total_lag :: "string \<rightharpoonup> real"
  av_total_blocks :: "string \<rightharpoonup> int"
  av_lag_history :: "string \<rightharpoonup> (real \<times> int) list"
  av_latest_blocks :: "string \<rightharpoonup> int"

definition av_init :: avax_monitor where
  "av_init = \<lparr> av_total_elapsed = Map.empty, av_total_requests = Map.empty,
               av_total_lag = Map.empty, av_total_blocks = Map.empty,
               av_lag_history = Map.empty, av_latest_blocks = Map.empty \<rparr>"

definition av_update ::
  "avax_monitor \<Rightarrow> string \<Rightarrow> real \<Rightarrow> real \<Rightarrow> int \<Rightarrow> int \<Rightarrow> avax_monitor" where
  "av_update m endpoint sample_ts elapsed lag block_number =
     m \<lparr> av_total_elapsed := (av_total_elapsed m)
           (endpoint \<mapsto> get_default (av_total_elapsed m) endpoint 0 + elapsed),
         av_total_requests := (av_total_requests m)
           (endpoint \<mapsto> get_default (av_total_requests m) endpoint 0 + 1),
         av_total_lag := (av_total_lag m)
           (endpoint \<mapsto> get_default (av_total_lag m) endpoint 0 + of_int lag),
         av_total_blocks := (av_total_blocks m)
           (endpoint \<mapsto> get_default (av_total_blocks m) endpoint 0 + 1),
         av_lag_history := (av_lag_history m)
           (endpoint \<mapsto> bound_history
              (get_default (av_lag_history m) endpoint [] @ [(sample_ts, lag)])),
         av_latest_blocks := (av_latest_blocks m)(endpoint \<mapsto> block_number) \<rparr>"

definition av_avg_latency_ms :: "avax_monitor \<Rightarrow> string \<Rightarrow> py_error + real" where
  "av_avg_latency_ms m endpoint =
     (let req = get_default (av_total_requests m) endpoint 0 in
      if req = 0 then Inr 0
      else (case av_total_elapsed m endpoint of
              None \<Rightarrow> Inl KeyError
            | Some t \<Rightarrow> Inr ((t / of_int req) * 1000)))"

definition av_avg_block_lag_seconds :: "avax_monitor \<Rightarrow> string \<Rightarrow> py_error + real" where
  "av_avg_block_lag_seconds m endpoint =
     (let cnt = get_default (av_total_blocks m) endpoint 0 in
      if cnt = 0 then Inr 0
      else (case av_total_lag m endpoint of
              None \<Rightarrow> Inl KeyError
            | Some t \<Rightarrow> Inr (t / of_int cnt)))"

subsection \<open>Sequences of \<^verbatim>\<open>update\<close> calls\<close>

text \<open>
  One call of \<^verbatim>\<open>update\<close> is recorded as its argument tuple
  \<open>(endpoint, sample_ts, elapsed, lag, block_number)\<close>. The calls reach the aggregator
  one at a time (they are serialised by the lock), in the order of the list.
\<close>

type_synonym update_call = "string \<times> real \<times> real \<times> int \<times> int"

definition call_endpoint :: "update_call \<Rightarrow> string" where
  "call_endpoint c = fst c"

definition call_elapsed :: "update_call \<Rightarrow> real" where
  "call_elapsed c = (case c of (e, ts, el, lag, bn) \<Rightarrow> el)"

definition lm_sample :: "update_call \<Rightarrow> real \<times> int \<times> int" where
  "lm_sample c = (case c of (e, ts, el, lag, bn) \<Rightarrow> (ts, lag, bn))"

definition av_sample :: "update_call \<Rightarrow> real \<times> int" where
  "av_sample c = (case c of (e, ts, el, lag, bn) \<Rightarrow> (ts, lag))"

definition calls_for :: "string \<Rightarrow> update_call list \<Rightarrow> update_call list" where
  "calls_for endpoint calls = filter (\<lambda>c. call_endpoint c = endpoint) calls"

definition lm_apply :: "latency_monitor \<Rightarrow> update_call \<Rightarrow> latency_monitor" where
  "lm_apply m c = (case c of (e, ts, el, lag, bn) \<Rightarrow> lm_update m e ts el lag bn)"

definition av_apply :: "avax_monitor \<Rightarrow> update_call \<Rightarrow> avax_monitor" where
  "av_apply m c = (case c of (e, ts, el, lag, bn) \<Rightarrow> av_update m e ts el lag bn)"

definition lm_updates :: "latency_monitor \<Rightarrow> update_call list \<Rightarrow> latency_monitor" where
  "lm_updates m calls = foldl lm_apply m calls"

definition av_updates :: "avax_monitor \<Rightarrow> update_call list \<Rightarrow> avax_monitor" where
  "av_updates m calls = foldl av_apply m calls"

section \<open>ETA estimators\<close>

text \<open>
  \<^verbatim>\<open>estimate_sync_time\<close> returns either a message or a number
  (\<^verbatim>\<open>Union[str, float]\<close>); the caller discriminates with
  \<^verbatim>\<open>isinstance(eta, (int, float))\<close>. \<open>EtaInf\<close> is \<^verbatim>\<open>float("inf")\<close>.
\<close>

datatype eta_result = Status string | Eta real | EtaInf

fun is_numeric :: "eta_result \<Rightarrow> bool" where
  "is_numeric (Status s) = False"
| "is_numeric (Eta x) = True"
| "is_numeric EtaInf = True"

definition NOT_ENOUGH_DATA :: string where
  "NOT_ENOUGH_DATA = ''Not enough data''"

definition NOT_DECREASING :: string where
  "NOT_DECREASING = ''Block lag not decreasing''"

definition SYNCED :: string where
  "SYNCED = ''SYNCED''"

definition STABLE_INCREASING :: string where
  "STABLE_INCREASING = ''Lag stable/increasing''"

subsection \<open>Trend to zero: \<^verbatim>\<open>LatencyMonitor.estimate_sync_time\<close>\<close>

definition lm_window :: "(real \<times> int \<times> int) list \<Rightarrow> real \<Rightarrow> int \<Rightarrow> (real \<times> int) list" where
  \<comment> \<open>\<^verbatim>\<open>[(t, lag) for (t, lag, _bn) in hist if now - t <= window_s]\<close>\<close>
  "lm_window hist now window_s =
     map (\<lambda>(t, lag, bn). (t, lag)) (filter (\<lambda>(t, lag, bn). now - t \<le> of_int window_s) hist)"

definition lm_trend :: "(real \<times> int) list \<Rightarrow> eta_result" where
  \<comment> \<open>the part of the method after the window has been selected\<close>
  "lm_trend window =
     (if length window < 3 then Status NOT_ENOUGH_DATA
      else
        let t0 = fst (hd window); lag0 = snd (hd window);
            t1 = fst (last window); lag1 = snd (last window);
            dt = t1 - t0
        in if dt \<le> 0 then Status NOT_ENOUGH_DATA
           else
             let dlag = lag0 - lag1
             in if dlag \<le> 0 then Status NOT_DECREASING
                else
                  let rate = of_int dlag / dt
                  in if rate \<le> 0 then Status NOT_DECREASING
                     else Eta (of_int lag1 / rate))"

definition lm_estimate_sync_time ::
  "latency_monitor \<Rightarrow> string \<Rightarrow> int \<Rightarrow> real \<Rightarrow> eta_result" where
  \<comment> \<open>\<open>now\<close> is the value \<^verbatim>\<open>time.time()\<close> returns inside the method\<close>
  "lm_estimate_sync_time m endpoint window_s now =
     (let hist = get_default (lag_history m) endpoint []
      in if length hist < 3 then Status NOT_ENOUGH_DATA
         else lm_trend (lm_window hist now window_s))"

subsection \<open>Trend to target: \<^verbatim>\<open>AvaxMonitor.estimate_sync_time\<close>\<close>

definition av_points :: "(real \<times> int) list \<Rightarrow> int \<Rightarrow> (real \<times> int) list" where
  \<comment> \<open>\<^verbatim>\<open>hist[-window_samples:] if len(hist) > window_samples else hist\<close>\<close>
  "av_points hist window_samples =
     (if int (length hist) > window_samples then py_slice_from hist (- window_samples)
      else hist)"

definition av_trend :: "(real \<times> int) list \<Rightarrow> int \<Rightarrow> py_error + eta_result" where
  \<comment> \<open>the part of the method after \<open>points\<close> has been selected;
      \<^verbatim>\<open>points[-1]\<close> raises \<^verbatim>\<open>IndexError\<close> on an empty list\<close>
  "av_trend points target_lag_s =
     (if points = [] then Inl IndexError
      else
        let cur_lag = snd (last points)
        in if cur_lag \<le> target_lag_s then Inr (Status SYNCED)
           else
             let t_first = fst (hd points); lag_first = snd (hd points);
                 t_last = fst (last points); lag_last = snd (last points);
                 dt = t_last - t_first
             in if dt \<le> 0 then Inr (Status NOT_ENOUGH_DATA)
                else
                  let slope = of_int (lag_last - lag_first) / dt
                  in if slope \<ge> 0 then Inr (Status STABLE_INCREASING)
                     else
                       let remaining = cur_lag - target_lag_s; rate = - slope
                       in if rate > 0 then Inr (Eta (of_int remaining / rate))
                          else Inr EtaInf)"

definition av_estimate_sync_time ::
  "avax_monitor \<Rightarrow> string \<Rightarrow> int \<Rightarrow> int \<Rightarrow> py_error + eta_result" where
  "av_estimate_sync_time m endpoint target_lag_s window_samples =
     (let hist = get_default (av_lag_history m) endpoint []
      in if length hist < 3 then Inr (Status NOT_ENOUGH_DATA)
         else av_trend (av_points hist window_samples) target_lag_s)"

section \<open>Polling workers\<close>

text \<open>
  \<^verbatim>\<open>int(x)\<close> on a float truncates towards zero. A block as the worker reads it has a
  number and a timestamp, both integers.
\<close>

definition py_int_of_float :: "real \<Rightarrow> int" where
  "py_int_of_float x = (if x \<ge> 0 then \<lfloor>x\<rfloor> else \<lceil>x\<rceil>)"

record block =
  number :: int
  timestamp :: int

text \<open>
  One turn of the worker's loop, as observed from outside: the clock reading of the loop
  test, the reading \<open>t0\<close> before the request, the response (\<open>None\<close> when the request
  raised) and the reading \<open>t1\<close> after it.
\<close>

record poll_turn =
  t_test :: real
  t_before :: real
  response :: "block option"
  t_after :: real

definition lm_poll_body :: "latency_monitor \<Rightarrow> string \<Rightarrow> poll_turn \<Rightarrow> latency_monitor" where
  \<comment> \<open>the \<^verbatim>\<open>try\<close> block of \<^verbatim>\<open>poll_latest_block\<close> in blocklag\_monitor.py\<close>
  "lm_poll_body m name turn =
     (case response turn of
        None \<Rightarrow> m
      | Some b \<Rightarrow>
          let t0 = t_before turn; t1 = t_after turn;
              elapsed = t1 - t0;
              lag = py_int_of_float t1 - timestamp b;
              bn = number b
          in lm_update m name t1 elapsed lag bn)"

fun lm_poll_latest_block ::
  "string \<Rightarrow> real \<Rightarrow> latency_monitor \<Rightarrow> poll_turn list \<Rightarrow> latency_monitor" where
  "lm_poll_latest_block name stop_at m [] = m"
| "lm_poll_latest_block name stop_at m (turn # turns) =
     (if t_test turn < stop_at
      then lm_poll_latest_block name stop_at (lm_poll_body m name turn) turns
      else m)"

definition av_poll_body :: "avax_monitor \<Rightarrow> string \<Rightarrow> poll_turn \<Rightarrow> avax_monitor" where
  \<comment> \<open>the \<^verbatim>\<open>try\<close> block of \<^verbatim>\<open>poll_latest_block\<close> in blocklag\_monitor\_avax.py\<close>
  "av_poll_body m name turn =
     (case response turn of
        None \<Rightarrow> m
      | Some b \<Rightarrow>
          let t0 = t_before turn; t1 = t_after turn;
              elapsed = t1 - t0;
              block_ts = timestamp b;
              lag = max 0 (py_int_of_float t1 - block_ts);
              block_no = number b
          in av_update m name t1 elapsed lag block_no)"

fun av_poll_latest_block ::
  "string \<Rightarrow> real \<Rightarrow> avax_monitor \<Rightarrow> poll_turn list \<Rightarrow> avax_monitor" where
  "av_poll_latest_block name stop m [] = m"
| "av_poll_latest_block name stop m (turn # turns) =
     (if t_test turn < stop
      then av_poll_latest_block name stop (av_poll_body m name turn) turns
      else m)"

section \<open>Chain-name resolver: \<^verbatim>\<open>load_chainlist_name_map\<close>\<close>

text \<open>
  The resolver is the same in both scripts. Values decoded by \<^verbatim>\<open>json.loads\<close> are
  modelled by \<open>json\<close>; an object is the decoded \<^verbatim>\<open>dict\<close>, given as its items in
  order, with distinct keys. \<open>JNonFinite\<close> stands for the floats \<^verbatim>\<open>NaN\<close>,
  \<^verbatim>\<open>Infinity\<close> and \<^verbatim>\<open>-Infinity\<close>, which \<^verbatim>\<open>json.loads\<close> accepts and on which
  \<^verbatim>\<open>int()\<close> raises. Strings are ASCII: \<^verbatim>\<open>isdigit\<close> and \<^verbatim>\<open>strip\<close> are modelled on
  code points below 128 only. A name map (\<^verbatim>\<open>Dict[int, str]\<close>) is an association list
  in insertion order, updated with \<^const>\<open>AList.update\<close> as a \<^verbatim>\<open>dict\<close> assignment does.
\<close>

datatype json =
    JNull
  | JBool bool
  | JInt int
  | JFloat real
  | JNonFinite
  | JStr string
  | JList "json list"
  | JObj "(string \<times> json) list"

type_synonym name_map = "(int \<times> string) list"

subsection \<open>Python primitives on decoded values\<close>

fun py_truthy :: "json \<Rightarrow> bool" where
  "py_truthy JNull = False"
| "py_truthy (JBool b) = b"
| "py_truthy (JInt i) = (i \<noteq> 0)"
| "py_truthy (JFloat r) = (r \<noteq> 0)"
| "py_truthy JNonFinite = True"
| "py_truthy (JStr s) = (s \<noteq> [])"
| "py_truthy (JList xs) = (xs \<noteq> [])"
| "py_truthy (JObj kvs) = (kvs \<noteq> [])"

definition py_or :: "json \<Rightarrow> json \<Rightarrow> json" where
  "py_or a b = (if py_truthy a then a else b)"

definition dict_get :: "(string \<times> json) list \<Rightarrow> string \<Rightarrow> json" where
  \<comment> \<open>\<^verbatim>\<open>d.get(key)\<close>: \<^verbatim>\<open>None\<close> for a missing key\<close>
  "dict_get kvs key = (case map_of kvs key of None \<Rightarrow> JNull | Some v \<Rightarrow> v)"

definition is_digit_char :: "char \<Rightarrow> bool" where
  "is_digit_char c = (let n = (of_char c :: nat) in 48 \<le> n \<and> n \<le> 57)"

definition is_space_char :: "char \<Rightarrow> bool" where
  "is_space_char c =
     (let n = (of_char c :: nat) in (9 \<le> n \<and> n \<le> 13) \<or> (28 \<le> n \<and> n \<le> 32))"

definition py_isdigit :: "string \<Rightarrow> bool" where
  "py_isdigit s = (s \<noteq> [] \<and> list_all is_digit_char s)"

definition py_strip :: "string \<Rightarrow> string" where
  "py_strip s = rev (dropWhile is_space_char (rev (dropWhile is_space_char s)))"

definition py_int_of_str :: "string \<Rightarrow> int" where
  \<comment> \<open>\<^verbatim>\<open>int(s)\<close> for a string of decimal digits\<close>
  "py_int_of_str s = foldl (\<lambda>acc c. 10 * acc + (of_char c - 48)) 0 s"

subsection \<open>\<^verbatim>\<open>_build_chainid_to_name\<close>\<close>

definition build_item :: "name_map \<Rightarrow> json \<Rightarrow> name_map" where
  \<comment> \<open>one turn of the loop over the payload list; \<^verbatim>\<open>True\<close> and \<^verbatim>\<open>False\<close> are
      instances of \<^verbatim>\<open>int\<close> and hash as 1 and 0\<close>
  "build_item out item =
     (case item of
        JObj kvs \<Rightarrow>
          let cid = dict_get kvs ''chainId'';
              name = py_or (py_or (dict_get kvs ''name'') (dict_get kvs ''chain''))
                       (dict_get kvs ''shortName'')
          in (case name of
                JStr nm \<Rightarrow>
                  if py_strip nm \<noteq> [] then
                    (case cid of
                       JInt i \<Rightarrow> AList.update i (py_strip nm) out
                     | JBool b \<Rightarrow> AList.update (if b then 1 else 0) (py_strip nm) out
                     | JStr c \<Rightarrow>
                         if py_isdigit c then AList.update (py_int_of_str c) (py_strip nm) out
                         else out
                     | _ \<Rightarrow> out)
                  else out
              | _ \<Rightarrow> out)
      | _ \<Rightarrow> out)"

definition build_list :: "json list \<Rightarrow> name_map" where
  "build_list items = foldl build_item [] items"

fun build_wrapped :: "(string \<times> json) list \<Rightarrow> string list \<Rightarrow> name_map" where
  "build_wrapped kvs [] = []"
| "build_wrapped kvs (key # keys) =
     (case dict_get kvs key of
        JList items \<Rightarrow> build_list items
      | _ \<Rightarrow> build_wrapped kvs keys)"

definition build_chainid_to_name :: "json \<Rightarrow> name_map" where
  "build_chainid_to_name payload =
     (case payload of
        JList items \<Rightarrow> build_list items
      | JObj kvs \<Rightarrow> build_wrapped kvs [''chains'', ''data'', ''result'']
      | _ \<Rightarrow> [])"

subsection \<open>\<^verbatim>\<open>_fetch_json_with_retries\<close>\<close>

text \<open>
  The network is an input: what the attempt with a given number meets. \<open>Payload\<close> is a
  response that decodes to JSON; \<open>Transient\<close> is one of the exceptions the loop catches
  (\<^verbatim>\<open>URLError\<close>, \<^verbatim>\<open>HTTPError\<close>, \<^verbatim>\<open>TimeoutError\<close>, \<^verbatim>\<open>JSONDecodeError\<close>);
  \<open>Uncaught\<close> is any other exception, which leaves the loop at once. The result carries
  the number of attempts made and the sleeps taken between them.
\<close>

datatype attempt_outcome = Payload json | Transient | Uncaught

type_synonym fetch_result = "(py_error + json) \<times> nat \<times> real list"

fun fetch_loop ::
  "(int \<Rightarrow> attempt_outcome) \<Rightarrow> real \<Rightarrow> int \<Rightarrow> bool \<Rightarrow> int list \<Rightarrow> fetch_result" where
  "fetch_loop net backoff_base_s attempts has_err [] =
     (Inl (if has_err then TransportError else AssertionError), 0, [])"
| "fetch_loop net backoff_base_s attempts has_err (attempt # rest) =
     (case net attempt of
        Payload j \<Rightarrow> (Inr j, 1, [])
      | Uncaught \<Rightarrow> (Inl OtherError, 1, [])
      | Transient \<Rightarrow>
          (case fetch_loop net backoff_base_s attempts True rest of
             (r, n, sleeps) \<Rightarrow>
               (r, Suc n,
                (if attempt < attempts
                 then [backoff_base_s * 2 ^ nat (attempt - 1)] else []) @ sleeps)))"

definition fetch_json_with_retries ::
  "(int \<Rightarrow> attempt_outcome) \<Rightarrow> int \<Rightarrow> real \<Rightarrow> fetch_result" where
  \<comment> \<open>\<^verbatim>\<open>range(1, attempts + 1)\<close> is \<open>[1..attempts]\<close>\<close>
  "fetch_json_with_retries net retries backoff_base_s =
     (let attempts = retries + 1
      in fetch_loop net backoff_base_s attempts False [1..attempts])"

subsection \<open>Reading the cache file\<close>

datatype cache_file = NoFile | Unreadable | Content json

record cache_read =
  cached_map :: name_map
  cached_fetched_at :: "int option"
  cached_ttl :: "int option"

datatype int_field = NotANumber | Raises | Value int

fun py_int_field :: "json \<Rightarrow> int_field" where
  \<comment> \<open>\<^verbatim>\<open>int(x)\<close> under the guard
      \<^verbatim>\<open>isinstance(x, (int, float)) or (isinstance(x, str) and x.isdigit())\<close>\<close>
  "py_int_field (JBool b) = Value (if b then 1 else 0)"
| "py_int_field (JInt i) = Value i"
| "py_int_field (JFloat r) = Value (py_int_of_float r)"
| "py_int_field JNonFinite = Raises"
| "py_int_field (JStr s) = (if py_isdigit s then Value (py_int_of_str s) else NotANumber)"
| "py_int_field JNull = NotANumber"
| "py_int_field (JList xs) = NotANumber"
| "py_int_field (JObj kvs) = NotANumber"

definition cache_item :: "name_map \<Rightarrow> string \<times> json \<Rightarrow> name_map" where
  \<comment> \<open>one item of the dict comprehension over \<^verbatim>\<open>data.items()\<close>\<close>
  "cache_item out kv =
     (case kv of (k, v) \<Rightarrow>
        (case v of
           JStr s \<Rightarrow>
             if py_isdigit k \<and> py_strip s \<noteq> []
             then AList.update (py_int_of_str k) (py_strip s) out else out
         | _ \<Rightarrow> out))"

definition value_of_field :: "int_field \<Rightarrow> int option" where
  "value_of_field f = (case f of Value i \<Rightarrow> Some i | _ \<Rightarrow> None)"

definition read_cache :: "cache_file \<Rightarrow> cache_read" where
  \<comment> \<open>the first \<^verbatim>\<open>try\<close> block: an exception leaves the variables assigned so far\<close>
  "read_cache file =
     (let nothing = \<lparr> cached_map = [], cached_fetched_at = None, cached_ttl = None \<rparr>
      in case file of
           Content (JObj kvs) \<Rightarrow>
             (case dict_get kvs ''data'' of
                JObj data \<Rightarrow>
                  let cm = foldl cache_item [] data;
                      fa = py_int_field (dict_get kvs ''fetched_at'');
                      ct = py_int_field (dict_get kvs ''ttl'')
                  in if fa = Raises
                     then \<lparr> cached_map = cm, cached_fetched_at = None, cached_ttl = None \<rparr>
                     else \<lparr> cached_map = cm, cached_fetched_at = value_of_field fa,
                            cached_ttl = value_of_field ct \<rparr>
              | _ \<Rightarrow> nothing)
         | _ \<Rightarrow> nothing)"

subsection \<open>The resolver\<close>

text \<open>
  What the resolver meets outside the process: the cache file, the clock reading of the
  freshness test, the network, the clock reading at the write-back and whether the
  write-back succeeds.
\<close>

record environment =
  cache_on_disk :: cache_file
  clock_at_check :: real
  network :: "int \<Rightarrow> attempt_outcome"
  clock_at_write :: real
  write_succeeds :: bool

record cache_obj =
  source :: string
  fetched_at :: int
  ttl :: int
  data :: name_map

record load_result =
  returned_map :: name_map
  fetch_attempts :: nat
  sleeps :: "real list"
  written :: "cache_obj option"

definition effective_ttl :: "cache_read \<Rightarrow> int \<Rightarrow> int" where
  "effective_ttl c ttl_s = (case cached_ttl c of None \<Rightarrow> ttl_s | Some t \<Rightarrow> t)"

definition cache_is_fresh :: "cache_read \<Rightarrow> int \<Rightarrow> real \<Rightarrow> bool" where
  \<comment> \<open>the test under \<^verbatim>\<open># If cache is fresh enough, return it\<close>\<close>
  "cache_is_fresh c ttl_s now =
     (cached_map c \<noteq> [] \<and>
      (case cached_fetched_at c of
         None \<Rightarrow> False
       | Some fa \<Rightarrow> py_int_of_float now - fa \<le> effective_ttl c ttl_s))"

definition fetch_or_fall_back ::
  "string \<Rightarrow> cache_read \<Rightarrow> int \<Rightarrow> int \<Rightarrow> real \<Rightarrow> bool \<Rightarrow> environment \<Rightarrow> load_result" where
  \<comment> \<open>the second \<^verbatim>\<open>try\<close> block, under \<^verbatim>\<open># Otherwise fetch\<close>\<close>
  "fetch_or_fall_back url c ttl_s retries backoff_base_s allow_stale_cache env =
     (case fetch_json_with_retries (network env) retries backoff_base_s of
        (Inr payload, n, sl) \<Rightarrow>
          let mapping = build_chainid_to_name payload
          in \<lparr> returned_map = mapping, fetch_attempts = n, sleeps = sl,
               written =
                 (if mapping \<noteq> [] \<and> write_succeeds env
                  then Some \<lparr> source = url,
                              fetched_at = py_int_of_float (clock_at_write env),
                              ttl = ttl_s, data = mapping \<rparr>
                  else None) \<rparr>
      | (Inl e, n, sl) \<Rightarrow>
          \<lparr> returned_map = (if allow_stale_cache \<and> cached_map c \<noteq> [] then cached_map c else []),
            fetch_attempts = n, sleeps = sl, written = None \<rparr>)"

definition load_chainlist_name_map ::
  "string \<Rightarrow> int \<Rightarrow> int \<Rightarrow> int \<Rightarrow> real \<Rightarrow> bool \<Rightarrow> environment \<Rightarrow> load_result" where
  "load_chainlist_name_map url ttl_s timeout_s retries backoff_base_s allow_stale_cache env =
     (let c = read_cache (cache_on_disk env)
      in if cache_is_fresh c ttl_s (clock_at_check env)
         then \<lparr> returned_map = cached_map c, fetch_attempts = 0, sleeps = [], written = None \<rparr>
         else fetch_or_fall_back url c ttl_s retries backoff_base_s allow_stale_cache env)"

section \<open>Properties of the aggregators\<close>

subsection \<open>The bounded history\<close>

lemma bound_history_drop: "bound_history h = drop (length h - HISTORY_CAP) h"
  by (simp add: bound_history_def py_slice_from_def HISTORY_CAP_def nat_diff_distrib)

lemma bound_history_length: "length (bound_history h) \<le> HISTORY_CAP"
  by (simp add: bound_history_drop)

lemma bound_history_last: "last (bound_history (h @ [s])) = s"
  by (simp add: bound_history_drop HISTORY_CAP_def)

lemma bound_history_snoc: "bound_history (bound_history xs @ [s]) = bound_history (xs @ [s])"
proof -
  let ?n = "length xs"
  have "?n - (?n - HISTORY_CAP + (HISTORY_CAP - 1)) + (?n - HISTORY_CAP) = ?n - (HISTORY_CAP - 1)"
    by (simp add: HISTORY_CAP_def)
  then show ?thesis
    by (simp add: bound_history_drop HISTORY_CAP_def)
qed

subsection \<open>State after a sequence of calls\<close>

lemma lm_updates_snoc: "lm_updates m (cs @ [c]) = lm_apply (lm_updates m cs) c"
  by (simp add: lm_updates_def)

lemma av_updates_snoc: "av_updates m (cs @ [c]) = av_apply (av_updates m cs) c"
  by (simp add: av_updates_def)

lemma calls_for_snoc:
  "calls_for e (cs @ [c]) = (if call_endpoint c = e then calls_for e cs @ [c] else calls_for e cs)"
  by (simp add: calls_for_def)

lemma lm_history_run:
  "lag_history (lm_updates lm_init calls) e =
     (if calls_for e calls = [] then None
      else Some (bound_history (map lm_sample (calls_for e calls))))"
proof (induction calls rule: rev_induct)
  case Nil
  show ?case by (simp add: lm_updates_def lm_init_def calls_for_def)
next
  case (snoc c cs)
  obtain e' ts el lag bn where c: "c = (e', ts, el, lag, bn)" by (cases c)
  show ?case
  proof (cases "e' = e")
    case True
    with snoc c show ?thesis
      by (simp add: lm_updates_snoc calls_for_snoc lm_apply_def lm_update_def
          call_endpoint_def lm_sample_def get_default_def bound_history_snoc)
  next
    case False
    with snoc c show ?thesis
      by (simp add: lm_updates_snoc calls_for_snoc lm_apply_def lm_update_def
          call_endpoint_def)
  qed
qed

lemma lm_requests_run:
  "total_requests (lm_updates lm_init calls) e =
     (if calls_for e calls = [] then None else Some (int (length (calls_for e calls))))"
proof (induction calls rule: rev_induct)
  case Nil
  show ?case by (simp add: lm_updates_def lm_init_def calls_for_def)
next
  case (snoc c cs)
  obtain e' ts el lag bn where c: "c = (e', ts, el, lag, bn)" by (cases c)
  show ?case
  proof (cases "e' = e")
    case True
    with snoc c show ?thesis
      by (simp add: lm_updates_snoc calls_for_snoc lm_apply_def lm_update_def
          call_endpoint_def get_default_def)
  next
    case False
    with snoc c show ?thesis
      by (simp add: lm_updates_snoc calls_for_snoc lm_apply_def lm_update_def
          call_endpoint_def)
  qed
qed

lemma lm_elapsed_run:
  "total_elapsed (lm_updates lm_init calls) e =
     (if calls_for e calls = [] then None
      else Some (sum_list (map call_elapsed (calls_for e calls))))"
proof (induction calls rule: rev_induct)
  case Nil
  show ?case by (simp add: lm_updates_def lm_init_def calls_for_def)
next
  case (snoc c cs)
  obtain e' ts el lag bn where c: "c = (e', ts, el, lag, bn)" by (cases c)
  show ?case
  proof (cases "e' = e")
    case True
    with snoc c show ?thesis
      by (simp add: lm_updates_snoc calls_for_snoc lm_apply_def lm_update_def
          call_endpoint_def get_default_def call_elapsed_def)
  next
    case False
    with snoc c show ?thesis
      by (simp add: lm_updates_snoc calls_for_snoc lm_apply_def lm_update_def
          call_endpoint_def)
  qed
qed

text \<open>The same three facts for \<^verbatim>\<open>AvaxMonitor\<close>, proved together from the effect
  of one call.\<close>

lemma av_apply_other:
  "call_endpoint c \<noteq> e \<Longrightarrow>
     av_lag_history (av_apply m c) e = av_lag_history m e \<and>
     av_total_requests (av_apply m c) e = av_total_requests m e \<and>
     av_total_elapsed (av_apply m c) e = av_total_elapsed m e"
  by (cases c) (simp add: av_apply_def av_update_def call_endpoint_def)

lemma av_apply_same:
  "call_endpoint c = e \<Longrightarrow>
     av_lag_history (av_apply m c) e =
       Some (bound_history (get_default (av_lag_history m) e [] @ [av_sample c])) \<and>
     av_total_requests (av_apply m c) e = Some (get_default (av_total_requests m) e 0 + 1) \<and>
     av_total_elapsed (av_apply m c) e =
       Some (get_default (av_total_elapsed m) e 0 + call_elapsed c)"
  by (cases c)
    (auto simp add: av_apply_def av_update_def call_endpoint_def av_sample_def call_elapsed_def)

lemma av_run:
  "av_lag_history (av_updates av_init calls) e =
     (if calls_for e calls = [] then None
      else Some (bound_history (map av_sample (calls_for e calls)))) \<and>
   av_total_requests (av_updates av_init calls) e =
     (if calls_for e calls = [] then None else Some (int (length (calls_for e calls)))) \<and>
   av_total_elapsed (av_updates av_init calls) e =
     (if calls_for e calls = [] then None
      else Some (sum_list (map call_elapsed (calls_for e calls))))"
proof (induction calls rule: rev_induct)
  case Nil
  show ?case by (simp add: av_updates_def av_init_def calls_for_def)
next
  case (snoc c cs)
  let ?m = "av_updates av_init cs"
  show ?case
  proof (cases "call_endpoint c = e")
    case False
    from av_apply_other [OF False, of ?m] snoc False show ?thesis
      by (simp add: av_updates_snoc calls_for_snoc)
  next
    case True
    from av_apply_same [OF True, of ?m] snoc True show ?thesis
      by (simp add: av_updates_snoc calls_for_snoc get_default_def bound_history_snoc)
  qed
qed

subsection \<open>Average latency\<close>

text \<open>
  C1 (as amended). For every endpoint and every sequence of \<^verbatim>\<open>update\<close> calls applied to
  a fresh aggregator, \<^verbatim>\<open>avg_latency_ms(endpoint)\<close> is 0 when no call was recorded for
  the endpoint, and otherwise the cumulative elapsed time of the endpoint's calls divided
  by their number, times 1000: the elapsed times are recorded in seconds and the average
  is reported in milliseconds. This holds for both aggregators. The result does not read
  the history: replacing the history by any other one leaves the average unchanged, so
  truncation of the bounded history never affects it.
\<close>

theorem avg_latency_ms_from_running_totals:
  "lm_avg_latency_ms (lm_updates lm_init calls) e =
     Inr (if calls_for e calls = [] then 0
          else sum_list (map call_elapsed (calls_for e calls))
                 / real (length (calls_for e calls)) * 1000) \<and>
   av_avg_latency_ms (av_updates av_init calls) e =
     Inr (if calls_for e calls = [] then 0
          else sum_list (map call_elapsed (calls_for e calls))
                 / real (length (calls_for e calls)) * 1000) \<and>
   lm_avg_latency_ms (m\<lparr>lag_history := h\<rparr>) e = lm_avg_latency_ms m e \<and>
   av_avg_latency_ms (a\<lparr>av_lag_history := h'\<rparr>) e = av_avg_latency_ms a e"
proof -
  have "lm_avg_latency_ms (lm_updates lm_init calls) e =
     Inr (if calls_for e calls = [] then 0
          else sum_list (map call_elapsed (calls_for e calls))
                 / real (length (calls_for e calls)) * 1000)"
    by (simp add: lm_avg_latency_ms_def lm_requests_run lm_elapsed_run)
  moreover have "av_avg_latency_ms (av_updates av_init calls) e =
     Inr (if calls_for e calls = [] then 0
          else sum_list (map call_elapsed (calls_for e calls))
                 / real (length (calls_for e calls)) * 1000)"
    using av_run [of calls e] by (simp add: av_avg_latency_ms_def get_default_def)
  moreover have "lm_avg_latency_ms (m\<lparr>lag_history := h\<rparr>) e = lm_avg_latency_ms m e"
    by (simp add: lm_avg_latency_ms_def split: option.splits)
  moreover have "av_avg_latency_ms (a\<lparr>av_lag_history := h'\<rparr>) e = av_avg_latency_ms a e"
    by (simp add: av_avg_latency_ms_def Let_def split: option.splits)
  ultimately show ?thesis by blast
qed

text \<open>
  Two calls for one endpoint, with elapsed times of 2 s and 4 s, interleaved with a call
  for another endpoint: the average is 3000 ms.
\<close>

theorem avg_latency_ms_from_running_totals_witness:
  "lm_avg_latency_ms
     (lm_updates lm_init
        [(''node-a'', 10, 2, 7, 100), (''node-b'', 11, 9, 0, 55), (''node-a'', 12, 4, 6, 101)])
     ''node-a'' = Inr 3000 \<and>
   av_avg_latency_ms
     (av_updates av_init
        [(''node-a'', 10, 2, 7, 100), (''node-b'', 11, 9, 0, 55), (''node-a'', 12, 4, 6, 101)])
     ''node-a'' = Inr 3000"
  using avg_latency_ms_from_running_totals
    [of "[(''node-a'', 10, 2, 7, 100), (''node-b'', 11, 9, 0, 55), (''node-a'', 12, 4, 6, 101)]"
        "''node-a''"]
  by (simp add: calls_for_def call_endpoint_def call_elapsed_def)

text \<open>
  The claim as it is written, without the factor: after one call with an elapsed time of
  2 s the cumulative elapsed time over the request count is 2, the method returns 2000.
\<close>

theorem avg_latency_not_plain_quotient:
  "lm_avg_latency_ms (lm_updates lm_init [(''node-a'', 10, 2, 7, 100)]) ''node-a''
     \<noteq> Inr (sum_list (map call_elapsed (calls_for ''node-a'' [(''node-a'', 10, 2, 7, 100)]))
             / real (length (calls_for ''node-a'' [(''node-a'', 10, 2, 7, 100)])))"
  by (simp add: lm_avg_latency_ms_def lm_updates_def lm_apply_def lm_update_def lm_init_def
      get_default_def calls_for_def call_endpoint_def call_elapsed_def)

subsection \<open>History cap\<close>

text \<open>
  C2. For both aggregators: after any \<^verbatim>\<open>update\<close>, from any state, the endpoint's history
  is the old history with the new sample appended, cut from the front down to at most
  10,000 entries; so its length never exceeds 10,000 and its last entry is the sample just
  recorded. After any sequence of calls applied to a fresh aggregator, the history of an
  endpoint is the endpoint's samples in the order they were recorded with only the oldest
  ones beyond the newest 10,000 removed.
\<close>

theorem history_capped_fifo:
  "lag_history (lm_update m e ts el lag bn) e =
     Some (drop (length (get_default (lag_history m) e [] @ [(ts, lag, bn)]) - 10000)
                (get_default (lag_history m) e [] @ [(ts, lag, bn)])) \<and>
   length (get_default (lag_history (lm_update m e ts el lag bn)) e []) \<le> 10000 \<and>
   last (get_default (lag_history (lm_update m e ts el lag bn)) e []) = (ts, lag, bn) \<and>
   get_default (lag_history (lm_updates lm_init calls)) e [] =
     drop (length (calls_for e calls) - 10000) (map lm_sample (calls_for e calls)) \<and>
   av_lag_history (av_update a e ts el lag bn) e =
     Some (drop (length (get_default (av_lag_history a) e [] @ [(ts, lag)]) - 10000)
                (get_default (av_lag_history a) e [] @ [(ts, lag)])) \<and>
   length (get_default (av_lag_history (av_update a e ts el lag bn)) e []) \<le> 10000 \<and>
   last (get_default (av_lag_history (av_update a e ts el lag bn)) e []) = (ts, lag) \<and>
   get_default (av_lag_history (av_updates av_init calls)) e [] =
     drop (length (calls_for e calls) - 10000) (map av_sample (calls_for e calls))"
proof -
  let ?h = "get_default (lag_history m) e [] @ [(ts, lag, bn)]"
  let ?g = "get_default (av_lag_history a) e [] @ [(ts, lag)]"
  have lm1: "lag_history (lm_update m e ts el lag bn) e = Some (bound_history ?h)"
    by (simp add: lm_update_def)
  have av1: "av_lag_history (av_update a e ts el lag bn) e = Some (bound_history ?g)"
    by (simp add: av_update_def)
  have cap: "HISTORY_CAP = 10000"
    by (simp add: HISTORY_CAP_def)
  have "lag_history (lm_update m e ts el lag bn) e = Some (drop (length ?h - 10000) ?h)"
    using lm1 bound_history_drop [of ?h] cap by simp
  moreover have "length (get_default (lag_history (lm_update m e ts el lag bn)) e []) \<le> 10000"
    using lm1 bound_history_length [of ?h] cap by (simp add: get_default_def)
  moreover have "last (get_default (lag_history (lm_update m e ts el lag bn)) e []) = (ts, lag, bn)"
    using lm1 bound_history_last by (simp add: get_default_def)
  moreover have "get_default (lag_history (lm_updates lm_init calls)) e [] =
     drop (length (calls_for e calls) - 10000) (map lm_sample (calls_for e calls))"
    using cap by (simp add: lm_history_run get_default_def bound_history_drop)
  moreover have "av_lag_history (av_update a e ts el lag bn) e = Some (drop (length ?g - 10000) ?g)"
    using av1 bound_history_drop [of ?g] cap by simp
  moreover have "length (get_default (av_lag_history (av_update a e ts el lag bn)) e []) \<le> 10000"
    using av1 bound_history_length [of ?g] cap by (simp add: get_default_def)
  moreover have "last (get_default (av_lag_history (av_update a e ts el lag bn)) e []) = (ts, lag)"
    using av1 bound_history_last by (simp add: get_default_def)
  moreover have "get_default (av_lag_history (av_updates av_init calls)) e [] =
     drop (length (calls_for e calls) - 10000) (map av_sample (calls_for e calls))"
    using cap av_run [of calls e] by (simp add: get_default_def bound_history_drop)
  ultimately show ?thesis by blast
qed

text \<open>
  An endpoint whose history is full (10,000 entries, the oldest one distinguished): the
  next \<^verbatim>\<open>update\<close> drops exactly the oldest entry and keeps the rest in order, with the
  new sample last.
\<close>

theorem history_capped_fifo_witness:
  "lag_history
     (lm_update (lm_init\<lparr>lag_history := [''node-a'' \<mapsto> (0, 9, 1) # replicate 9999 (1, 8, 2)]\<rparr>)
        ''node-a'' 2 1 7 3) ''node-a''
     = Some (replicate 9999 (1, 8, 2) @ [(2, 7, 3)])"
  using history_capped_fifo
    [of "lm_init\<lparr>lag_history := [''node-a'' \<mapsto> (0, 9, 1) # replicate 9999 (1, 8, 2)]\<rparr>"
        "''node-a''" 2 1 7 3]
  by (simp add: get_default_def)

section \<open>Properties of the estimators\<close>

lemma lm_window_length: "length (lm_window hist now w) \<le> length hist"
  by (simp add: lm_window_def)

lemma lm_trend_numeric:
  "is_numeric (lm_trend win) \<longleftrightarrow>
     (3 \<le> length win \<and> snd (last win) < snd (hd win) \<and> fst (hd win) < fst (last win))"
proof (cases "3 \<le> length win \<and> snd (last win) < snd (hd win) \<and> fst (hd win) < fst (last win)")
  case True
  then have "0 < real_of_int (snd (hd win) - snd (last win)) / (fst (last win) - fst (hd win))"
    by simp
  with True show ?thesis
    by (simp add: lm_trend_def Let_def not_le)
next
  case False
  then show ?thesis
    by (auto simp add: lm_trend_def Let_def)
qed

lemma lm_trend_value:
  assumes "3 \<le> length win" and "snd (last win) < snd (hd win)" and "fst (hd win) < fst (last win)"
  shows "lm_trend win =
           Eta (real_of_int (snd (last win))
                / (real_of_int (snd (hd win) - snd (last win)) / (fst (last win) - fst (hd win))))"
proof -
  from assms have "0 < real_of_int (snd (hd win) - snd (last win)) / (fst (last win) - fst (hd win))"
    by simp
  with assms show ?thesis
    by (simp add: lm_trend_def Let_def not_le)
qed

text \<open>
  C4 (as amended). For every state of the aggregator, endpoint, window length and clock
  reading, the trend-to-zero estimator returns a number if and only if the selected window
  holds at least 3 samples, the lag of its first sample is strictly greater than the lag of
  its last sample, and the time between the two is strictly positive. In every other case
  it returns a message.
\<close>

theorem trend_to_zero_numeric_iff:
  "is_numeric (lm_estimate_sync_time m e w now) \<longleftrightarrow>
     (3 \<le> length (lm_window (get_default (lag_history m) e []) now w) \<and>
      snd (last (lm_window (get_default (lag_history m) e []) now w))
        < snd (hd (lm_window (get_default (lag_history m) e []) now w)) \<and>
      fst (hd (lm_window (get_default (lag_history m) e []) now w))
        < fst (last (lm_window (get_default (lag_history m) e []) now w)))"
proof (cases "length (get_default (lag_history m) e []) < 3")
  case True
  with lm_window_length [of "get_default (lag_history m) e []" now w]
  have "\<not> 3 \<le> length (lm_window (get_default (lag_history m) e []) now w)"
    by linarith
  with True show ?thesis
    by (simp add: lm_estimate_sync_time_def)
next
  case False
  then show ?thesis
    by (simp add: lm_estimate_sync_time_def lm_trend_numeric)
qed

text \<open>
  Three samples inside a 30 s window with lags 100, 80, 60: a number is returned.
\<close>

theorem trend_to_zero_numeric_iff_witness:
  "is_numeric
     (lm_estimate_sync_time
        (lm_init\<lparr>lag_history := [''node-a'' \<mapsto> [(0, 100, 1), (10, 80, 2), (20, 60, 3)]]\<rparr>)
        ''node-a'' 30 20)"
  using trend_to_zero_numeric_iff
    [of "lm_init\<lparr>lag_history := [''node-a'' \<mapsto> [(0, 100, 1), (10, 80, 2), (20, 60, 3)]]\<rparr>"
        "''node-a''" 30 20]
  by (simp add: get_default_def lm_window_def)

text \<open>
  The claim as it is written, without the sample count: a history of three samples of
  which the oldest is older than the window. The window holds two samples, the lag fell
  from 80 to 60 over 10 s, and the estimator returns a message.
\<close>

theorem trend_to_zero_two_samples_no_number:
  "lm_window [(0, 100, 1), (50, 80, 2), (60, 60, 3)] 60 30 = [(50, 80), (60, 60)] \<and>
   snd (last (lm_window [(0, 100, 1), (50, 80, 2), (60, 60, 3)] 60 30))
     < snd (hd (lm_window [(0, 100, 1), (50, 80, 2), (60, 60, 3)] 60 30)) \<and>
   fst (hd (lm_window [(0, 100, 1), (50, 80, 2), (60, 60, 3)] 60 30))
     < fst (last (lm_window [(0, 100, 1), (50, 80, 2), (60, 60, 3)] 60 30)) \<and>
   \<not> is_numeric
     (lm_estimate_sync_time
        (lm_init\<lparr>lag_history := [''node-a'' \<mapsto> [(0, 100, 1), (50, 80, 2), (60, 60, 3)]]\<rparr>)
        ''node-a'' 30 60)"
  by (simp add: lm_estimate_sync_time_def lm_trend_def lm_window_def get_default_def)

text \<open>
  C5. Whenever the window selected by the trend-to-zero estimator holds at least 3
  samples, its first sample is \<open>(t_first, lag_first)\<close>, its last sample is
  \<open>(t_last, lag_last)\<close>, \<open>lag_first > lag_last\<close> and \<open>t_last > t_first\<close>, the estimator
  returns exactly \<open>lag_last / ((lag_first - lag_last) / (t_last - t_first))\<close>.
\<close>

theorem trend_to_zero_eta_value:
  assumes "3 \<le> length (lm_window (get_default (lag_history m) e []) now w)"
    and "hd (lm_window (get_default (lag_history m) e []) now w) = (t_first, lag_first)"
    and "last (lm_window (get_default (lag_history m) e []) now w) = (t_last, lag_last)"
    and "lag_first > lag_last"
    and "t_last > t_first"
  shows "lm_estimate_sync_time m e w now =
           Eta (real_of_int lag_last / (real_of_int (lag_first - lag_last) / (t_last - t_first)))"
proof -
  from assms(1) lm_window_length [of "get_default (lag_history m) e []" now w]
  have "\<not> length (get_default (lag_history m) e []) < 3"
    by linarith
  then have "lm_estimate_sync_time m e w now =
               lm_trend (lm_window (get_default (lag_history m) e []) now w)"
    by (simp add: lm_estimate_sync_time_def)
  also have "\<dots> = Eta (real_of_int lag_last
                        / (real_of_int (lag_first - lag_last) / (t_last - t_first)))"
    using lm_trend_value [of "lm_window (get_default (lag_history m) e []) now w"] assms
    by simp
  finally show ?thesis .
qed

text \<open>
  The scenario of the claim: three samples with lags 100, 80 and 60, recorded 10 s apart
  (a window spanning 20 s), read at the time of the last sample with the default 30 s
  window. The rate is \<open>(100 - 60) / 20 = 2\<close> and the estimate is \<open>60 / 2 = 30\<close> seconds.
\<close>

theorem trend_to_zero_eta_value_witness:
  "lm_estimate_sync_time
     (lm_updates lm_init
        [(''node-a'', 1000, 1, 100, 1), (''node-a'', 1010, 1, 80, 2), (''node-a'', 1020, 1, 60, 3)])
     ''node-a'' 30 1020 = Eta 30 \<and>
   real_of_int (100 - 60) / (1020 - 1000) = 2"
proof -
  let ?m = "lm_updates lm_init
        [(''node-a'', 1000, 1, 100, 1), (''node-a'', 1010, 1, 80, 2), (''node-a'', 1020, 1, 60, 3)]"
  have h: "get_default (lag_history ?m) ''node-a'' [] = [(1000, 100, 1), (1010, 80, 2), (1020, 60, 3)]"
    by (simp add: lm_updates_def lm_apply_def lm_update_def lm_init_def get_default_def
        bound_history_def HISTORY_CAP_def)
  have win: "lm_window (get_default (lag_history ?m) ''node-a'' []) 1020 30
               = [(1000, 100), (1010, 80), (1020, 60)]"
    unfolding h by (simp add: lm_window_def)
  have "lm_estimate_sync_time ?m ''node-a'' 30 1020 =
          Eta (real_of_int 60 / (real_of_int (100 - 60) / (1020 - 1000)))"
    by (rule trend_to_zero_eta_value) (simp_all add: win)
  then show ?thesis by simp
qed

text \<open>
  Where the rule of three samples is enforced. The trend-to-zero estimator returns
  "Not enough data" whenever the selected window holds fewer than 3 samples, whatever the
  samples are. The trend-to-target estimator tests the length of the history snapshot
  only: it returns "Not enough data" whenever the snapshot holds fewer than 3 samples,
  whatever the samples, the target and the window size are.
\<close>

lemma insufficient_data_below_three:
  "(length (lm_window (get_default (lag_history m) e []) now w) < 3 \<longrightarrow>
      lm_estimate_sync_time m e w now = Status NOT_ENOUGH_DATA) \<and>
   (length (get_default (av_lag_history a) e []) < 3 \<longrightarrow>
      av_estimate_sync_time a e target_lag_s window_samples = Inr (Status NOT_ENOUGH_DATA))"
  by (simp add: lm_estimate_sync_time_def lm_trend_def av_estimate_sync_time_def Let_def)

text \<open>
  Trend to zero: five samples, of which only the last two lie inside a 30 s window.
  Trend to target: two samples.
\<close>

lemma insufficient_data_below_three_example:
  "length (lm_window [(0, 90, 1), (10, 80, 2), (20, 70, 3), (50, 50, 4), (60, 40, 5)] 60 30) < 3 \<and>
   lm_estimate_sync_time
     (lm_init\<lparr>lag_history :=
        [''node-a'' \<mapsto> [(0, 90, 1), (10, 80, 2), (20, 70, 3), (50, 50, 4), (60, 40, 5)]]\<rparr>)
     ''node-a'' 30 60 = Status ''Not enough data'' \<and>
   av_estimate_sync_time
     (av_init\<lparr>av_lag_history := [''node-a'' \<mapsto> [(0, 90), (10, 80)]]\<rparr>)
     ''node-a'' 5 20 = Inr (Status ''Not enough data'')"
  using insufficient_data_below_three
    [of "lm_init\<lparr>lag_history :=
           [''node-a'' \<mapsto> [(0, 90, 1), (10, 80, 2), (20, 70, 3), (50, 50, 4), (60, 40, 5)]]\<rparr>"
        "''node-a''" 60 30
        "av_init\<lparr>av_lag_history := [''node-a'' \<mapsto> [(0, 90), (10, 80)]]\<rparr>" 5 20]
  by (simp add: get_default_def lm_window_def NOT_ENOUGH_DATA_def)

text \<open>
  C6. Whenever the windowed sample count is below 3 the estimator is to return
  "Not enough data", under both policies and whatever the samples are. The trend-to-target
  estimator of blocklag\_monitor\_avax.py does not: it tests \<^verbatim>\<open>len(hist) < 3\<close> and never
  the length of the window it selects. With a history of three samples (lags 100, 80, 60,
  recorded 10 s apart), a target of 5 s and a window of 2 samples, the window holds two
  samples and the estimator returns the number \<open>55 / 2\<close>. The trend-to-zero estimator of
  blocklag\_monitor.py, on the same three samples with a window that holds the same two,
  returns "Not enough data".
\<close>

theorem trend_to_target_two_samples_number:
  "av_points [(0, 100), (10, 80), (20, 60)] 2 = [(10, 80), (20, 60)] \<and>
   av_estimate_sync_time
     (av_init\<lparr>av_lag_history := [''node-a'' \<mapsto> [(0, 100), (10, 80), (20, 60)]]\<rparr>)
     ''node-a'' 5 2 = Inr (Eta (55 / 2)) \<and>
   lm_window [(0, 100, 1), (10, 80, 2), (20, 60, 3)] 20 10 = [(10, 80), (20, 60)] \<and>
   lm_estimate_sync_time
     (lm_init\<lparr>lag_history := [''node-a'' \<mapsto> [(0, 100, 1), (10, 80, 2), (20, 60, 3)]]\<rparr>)
     ''node-a'' 10 20 = Status ''Not enough data''"
  by (simp add: av_estimate_sync_time_def av_trend_def av_points_def py_slice_from_def
      lm_estimate_sync_time_def lm_trend_def lm_window_def get_default_def
      NOT_ENOUGH_DATA_def)




section \<open>Properties of the polling workers\<close>

lemma py_int_of_float_floor: "0 \<le> x \<Longrightarrow> py_int_of_float x = \<lfloor>x\<rfloor>"
  by (simp add: py_int_of_float_def)

text \<open>
  The worker of blocklag\_monitor\_avax.py: the lag it records is
  \<open>max 0 (int t1 - timestamp)\<close>, never negative.
\<close>

lemma av_poll_body_lag:
  "response turn = Some b \<Longrightarrow>
     av_lag_history (av_poll_body a name turn) name =
       Some (bound_history (get_default (av_lag_history a) name []
               @ [(t_after turn, max 0 (py_int_of_float (t_after turn) - timestamp b))]))"
  by (simp add: av_poll_body_def av_update_def Let_def)

lemma av_poll_body_lag_nonneg:
  "response turn = Some b \<Longrightarrow>
     0 \<le> snd (last (get_default (av_lag_history (av_poll_body a name turn)) name []))"
  by (simp add: av_poll_body_lag get_default_def bound_history_last)

text \<open>
  C3. The worker of blocklag\_monitor.py records \<open>int t1 - timestamp\<close> without a clamp.
  A response received at wall-clock time 100.5 for a block whose timestamp is 105 (a block
  stamped by a clock that runs ahead of the local one) puts the lag \<open>-5\<close> into the
  aggregator; the worker of blocklag\_monitor\_avax.py records 0 on the same turn.
\<close>

theorem lm_poll_records_negative_lag:
  "lag_history
     (lm_poll_latest_block ''node-a'' 1000 lm_init
        [\<lparr>t_test = 100, t_before = 100.25, response = Some \<lparr>number = 7, timestamp = 105\<rparr>,
          t_after = 100.5\<rparr>])
     ''node-a'' = Some [(100.5, - 5, 7)] \<and>
   av_lag_history
     (av_poll_latest_block ''node-a'' 1000 av_init
        [\<lparr>t_test = 100, t_before = 100.25, response = Some \<lparr>number = 7, timestamp = 105\<rparr>,
          t_after = 100.5\<rparr>])
     ''node-a'' = Some [(100.5, 0)]"
  by (simp add: lm_poll_body_def lm_update_def lm_init_def av_poll_body_def av_update_def
      av_init_def get_default_def bound_history_def HISTORY_CAP_def py_int_of_float_def)

section \<open>Properties of the chain-name resolver\<close>

subsection \<open>The retry loop\<close>

lemma fetch_loop_attempts_le:
  "fst (snd (fetch_loop net b n h as)) \<le> length as"
proof (induction as arbitrary: h)
  case Nil
  show ?case by simp
next
  case (Cons a as)
  from Cons [of True] show ?case
    by (cases "net a") (auto split: prod.splits)
qed

lemma fetch_loop_attempts_pos:
  "as \<noteq> [] \<Longrightarrow> 1 \<le> fst (snd (fetch_loop net b n h as))"
proof (cases as)
  case Nil
  moreover assume "as \<noteq> []"
  ultimately show ?thesis by simp
next
  case (Cons a rest)
  then show ?thesis
    by (cases "net a") (simp_all split: prod.splits)
qed

lemma fetch_loop_all_transient:
  "\<forall>a \<in> set as. net a = Transient \<Longrightarrow>
     fst (fetch_loop net b n h as)
       = Inl (if h \<or> as \<noteq> [] then TransportError else AssertionError) \<and>
     fst (snd (fetch_loop net b n h as)) = length as"
proof (induction as arbitrary: h)
  case Nil
  show ?case by simp
next
  case (Cons a as)
  from Cons.prems have a: "net a = Transient" and rest: "\<forall>x \<in> set as. net x = Transient"
    by simp_all
  from Cons.IH [OF rest, of True] a show ?case
    by (auto split: prod.splits)
qed

lemma fetch_attempts_pos:
  "0 \<le> retries \<Longrightarrow> 1 \<le> fst (snd (fetch_json_with_retries net retries b))"
proof -
  assume "0 \<le> retries"
  then have "[1..retries + 1] \<noteq> []"
    by simp
  from fetch_loop_attempts_pos [OF this, of net b "retries + 1" False] show ?thesis
    by (simp add: fetch_json_with_retries_def Let_def)
qed

lemma fetch_exhausted:
  assumes "\<forall>a. 1 \<le> a \<and> a \<le> retries + 1 \<longrightarrow> net a = Transient"
  shows "fst (fetch_json_with_retries net retries b)
           = Inl (if 0 \<le> retries then TransportError else AssertionError) \<and>
         fst (snd (fetch_json_with_retries net retries b)) = nat (retries + 1)"
proof -
  from assms have "\<forall>a \<in> set [1..retries + 1]. net a = Transient"
    by simp
  from fetch_loop_all_transient [OF this, of b "retries + 1" False] show ?thesis
    by (simp add: fetch_json_with_retries_def Let_def)
qed

lemma fetch_or_fall_back_attempts:
  "fetch_attempts (fetch_or_fall_back url c ttl_s retries b allow env)
     = fst (snd (fetch_json_with_retries (network env) retries b))"
  by (simp add: fetch_or_fall_back_def Let_def split: prod.splits sum.splits)

lemma fetch_or_fall_back_failed:
  "fst (fetch_json_with_retries (network env) retries b) = Inl err \<Longrightarrow>
     returned_map (fetch_or_fall_back url c ttl_s retries b allow env)
       = (if allow \<and> cached_map c \<noteq> [] then cached_map c else []) \<and>
     written (fetch_or_fall_back url c ttl_s retries b allow env) = None"
  by (auto simp add: fetch_or_fall_back_def split: prod.splits sum.splits)

subsection \<open>Fresh cache\<close>

text \<open>
  C8 (as amended). For every cache file whose deserialized mapping is not empty, whose
  fetch timestamp is present, and whose age \<open>now - fetched_at\<close> is at most the effective
  TTL (the TTL recorded in the file, or the caller's TTL if the file records none), the
  resolver returns the cached mapping, makes no fetch attempt, does not sleep and does not
  rewrite the cache.
\<close>

theorem fresh_cache_no_fetch:
  assumes "cached_map (read_cache (cache_on_disk env)) \<noteq> []"
    and "cached_fetched_at (read_cache (cache_on_disk env)) = Some fa"
    and "py_int_of_float (clock_at_check env) - fa
           \<le> effective_ttl (read_cache (cache_on_disk env)) ttl_s"
  shows "load_chainlist_name_map url ttl_s timeout_s retries backoff_base_s allow_stale_cache env
           = \<lparr> returned_map = cached_map (read_cache (cache_on_disk env)),
               fetch_attempts = 0, sleeps = [], written = None \<rparr>"
  using assms by (simp add: load_chainlist_name_map_def cache_is_fresh_def)

text \<open>
  The round trip of the specification: a cache file seeded with two names and
  \<open>fetched_at = now\<close>, and a network on which every attempt would fail. The resolver
  returns the file's contents and makes no attempt.
\<close>

theorem fresh_cache_no_fetch_witness:
  "load_chainlist_name_map ''https://chainlist.org/rpcs.json'' 86400 15 2 (1 / 2) False
     \<lparr> cache_on_disk = Content (JObj
          [(''source'', JStr ''https://chainlist.org/rpcs.json''),
           (''fetched_at'', JInt 1700000000),
           (''ttl'', JInt 86400),
           (''data'', JObj [(''1'', JStr ''Ethereum Mainnet''), (''56'', JStr ''BNB Smart Chain'')])]),
       clock_at_check = 1700000000, network = (\<lambda>a. Transient),
       clock_at_write = 1700000000, write_succeeds = True \<rparr>
   = \<lparr> returned_map = [(1, ''Ethereum Mainnet''), (56, ''BNB Smart Chain'')],
       fetch_attempts = 0, sleeps = [], written = None \<rparr>"
proof -
  let ?file = "Content (JObj
          [(''source'', JStr ''https://chainlist.org/rpcs.json''),
           (''fetched_at'', JInt 1700000000),
           (''ttl'', JInt 86400),
           (''data'', JObj [(''1'', JStr ''Ethereum Mainnet''), (''56'', JStr ''BNB Smart Chain'')])])"
  let ?env = "\<lparr> cache_on_disk = ?file,
       clock_at_check = 1700000000, network = (\<lambda>a. Transient),
       clock_at_write = 1700000000, write_succeeds = True \<rparr>"
  have rc: "read_cache (cache_on_disk ?env) =
              \<lparr> cached_map = [(1, ''Ethereum Mainnet''), (56, ''BNB Smart Chain'')],
                cached_fetched_at = Some 1700000000, cached_ttl = Some 86400 \<rparr>"
    by (simp add: read_cache_def dict_get_def cache_item_def py_isdigit_def is_digit_char_def
        py_strip_def is_space_char_def py_int_of_str_def value_of_field_def)
  have h1: "cached_map (read_cache (cache_on_disk ?env)) \<noteq> []"
    unfolding rc by simp
  have h2: "cached_fetched_at (read_cache (cache_on_disk ?env)) = Some 1700000000"
    unfolding rc by simp
  have h3: "py_int_of_float (clock_at_check ?env) - 1700000000
              \<le> effective_ttl (read_cache (cache_on_disk ?env)) 86400"
    unfolding rc by (simp add: effective_ttl_def py_int_of_float_def)
  from fresh_cache_no_fetch [OF h1 h2 h3] show ?thesis
    unfolding rc by simp
qed

text \<open>
  The claim as it is written, for every cache file whose age is within its TTL: a file
  with \<open>fetched_at = now\<close>, a TTL of one day and no entry. Its age is 0, and the resolver
  makes a fetch attempt and returns the fetched mapping.
\<close>

theorem fresh_empty_cache_is_fetched:
  "cached_fetched_at (read_cache (Content (JObj
      [(''fetched_at'', JInt 1700000000), (''ttl'', JInt 86400), (''data'', JObj [])])))
     = Some 1700000000 \<and>
   py_int_of_float 1700000000 - 1700000000
     \<le> effective_ttl (read_cache (Content (JObj
          [(''fetched_at'', JInt 1700000000), (''ttl'', JInt 86400), (''data'', JObj [])]))) 86400 \<and>
   load_chainlist_name_map ''https://chainlist.org/rpcs.json'' 86400 15 2 (1 / 2) False
     \<lparr> cache_on_disk = Content (JObj
          [(''fetched_at'', JInt 1700000000), (''ttl'', JInt 86400), (''data'', JObj [])]),
       clock_at_check = 1700000000,
       network = (\<lambda>a. Payload (JList [JObj [(''chainId'', JInt 1), (''name'', JStr ''Ethereum Mainnet'')]])),
       clock_at_write = 1700000001, write_succeeds = True \<rparr>
   = \<lparr> returned_map = [(1, ''Ethereum Mainnet'')], fetch_attempts = 1, sleeps = [],
       written = Some \<lparr> source = ''https://chainlist.org/rpcs.json'', fetched_at = 1700000001,
                        ttl = 86400, data = [(1, ''Ethereum Mainnet'')] \<rparr> \<rparr>"
  by (simp add: load_chainlist_name_map_def cache_is_fresh_def read_cache_def dict_get_def
      value_of_field_def effective_ttl_def py_int_of_float_def fetch_or_fall_back_def
      fetch_json_with_retries_def upto.simps build_chainid_to_name_def build_list_def
      build_item_def py_or_def py_strip_def is_space_char_def Let_def)

subsection \<open>Failed fetch\<close>

text \<open>
  C9. In every run in which the cache is not fresh and the fetch fails: the resolver
  returns the cached mapping if stale fallback is enabled and the cached mapping is not
  empty, and the empty mapping otherwise; nothing is written back. The resolver returns
  a mapping in every case, so the failure does not reach the caller. When every attempt
  from the first to attempt number \<open>retries + 1\<close> meets a transient failure, the fetch
  does fail, after exactly \<open>retries + 1\<close> attempts (none for a negative \<open>retries\<close>).
\<close>

theorem fetch_failure_falls_back:
  assumes "\<not> cache_is_fresh (read_cache (cache_on_disk env)) ttl_s (clock_at_check env)"
  shows "(fst (fetch_json_with_retries (network env) retries backoff_base_s) = Inl err \<longrightarrow>
            returned_map (load_chainlist_name_map url ttl_s timeout_s retries backoff_base_s
                            allow_stale_cache env)
              = (if allow_stale_cache \<and> cached_map (read_cache (cache_on_disk env)) \<noteq> []
                 then cached_map (read_cache (cache_on_disk env)) else []) \<and>
            written (load_chainlist_name_map url ttl_s timeout_s retries backoff_base_s
                       allow_stale_cache env) = None) \<and>
         ((\<forall>a. 1 \<le> a \<and> a \<le> retries + 1 \<longrightarrow> network env a = Transient) \<longrightarrow>
            returned_map (load_chainlist_name_map url ttl_s timeout_s retries backoff_base_s
                            allow_stale_cache env)
              = (if allow_stale_cache \<and> cached_map (read_cache (cache_on_disk env)) \<noteq> []
                 then cached_map (read_cache (cache_on_disk env)) else []) \<and>
            fetch_attempts (load_chainlist_name_map url ttl_s timeout_s retries backoff_base_s
                              allow_stale_cache env) = nat (retries + 1))"
proof -
  let ?c = "read_cache (cache_on_disk env)"
  from assms have load:
    "load_chainlist_name_map url ttl_s timeout_s retries backoff_base_s allow_stale_cache env
       = fetch_or_fall_back url ?c ttl_s retries backoff_base_s allow_stale_cache env"
    by (simp add: load_chainlist_name_map_def)
  have general: "fst (fetch_json_with_retries (network env) retries backoff_base_s) = Inl e' \<Longrightarrow>
      returned_map (fetch_or_fall_back url ?c ttl_s retries backoff_base_s allow_stale_cache env)
        = (if allow_stale_cache \<and> cached_map ?c \<noteq> [] then cached_map ?c else []) \<and>
      written (fetch_or_fall_back url ?c ttl_s retries backoff_base_s allow_stale_cache env) = None"
    for e'
    by (rule fetch_or_fall_back_failed)
  have exhausted: "\<forall>a. 1 \<le> a \<and> a \<le> retries + 1 \<longrightarrow> network env a = Transient \<Longrightarrow>
      returned_map (fetch_or_fall_back url ?c ttl_s retries backoff_base_s allow_stale_cache env)
        = (if allow_stale_cache \<and> cached_map ?c \<noteq> [] then cached_map ?c else []) \<and>
      fetch_attempts (fetch_or_fall_back url ?c ttl_s retries backoff_base_s allow_stale_cache env)
        = nat (retries + 1)"
  proof -
    assume "\<forall>a. 1 \<le> a \<and> a \<le> retries + 1 \<longrightarrow> network env a = Transient"
    from fetch_exhausted [OF this, of backoff_base_s]
    have f: "fst (fetch_json_with_retries (network env) retries backoff_base_s)
               = Inl (if 0 \<le> retries then TransportError else AssertionError)"
      and n: "fst (snd (fetch_json_with_retries (network env) retries backoff_base_s))
               = nat (retries + 1)"
      by simp_all
    from general [OF f] n show ?thesis
      by (simp add: fetch_or_fall_back_attempts)
  qed
  from general exhausted show ?thesis
    unfolding load by blast
qed

text \<open>
  An expired cache file (a day and an hour old, with a TTL of one day), two retries and a
  network on which every attempt times out. With stale fallback the cached names are
  returned after three attempts and nothing is written; without it the empty mapping is
  returned.
\<close>

theorem fetch_failure_falls_back_witness:
  "returned_map (load_chainlist_name_map ''https://chainlist.org/rpcs.json'' 86400 15 2 (1 / 2) True
     \<lparr> cache_on_disk = Content (JObj
          [(''fetched_at'', JInt 1700000000), (''ttl'', JInt 86400),
           (''data'', JObj [(''43114'', JStr ''Avalanche C-Chain'')])]),
       clock_at_check = 1700090000, network = (\<lambda>a. Transient),
       clock_at_write = 1700090001, write_succeeds = True \<rparr>)
     = [(43114, ''Avalanche C-Chain'')] \<and>
   fetch_attempts (load_chainlist_name_map ''https://chainlist.org/rpcs.json'' 86400 15 2 (1 / 2) True
     \<lparr> cache_on_disk = Content (JObj
          [(''fetched_at'', JInt 1700000000), (''ttl'', JInt 86400),
           (''data'', JObj [(''43114'', JStr ''Avalanche C-Chain'')])]),
       clock_at_check = 1700090000, network = (\<lambda>a. Transient),
       clock_at_write = 1700090001, write_succeeds = True \<rparr>)
     = 3 \<and>
   written (load_chainlist_name_map ''https://chainlist.org/rpcs.json'' 86400 15 2 (1 / 2) True
     \<lparr> cache_on_disk = Content (JObj
          [(''fetched_at'', JInt 1700000000), (''ttl'', JInt 86400),
           (''data'', JObj [(''43114'', JStr ''Avalanche C-Chain'')])]),
       clock_at_check = 1700090000, network = (\<lambda>a. Transient),
       clock_at_write = 1700090001, write_succeeds = True \<rparr>)
     = None \<and>
   returned_map (load_chainlist_name_map ''https://chainlist.org/rpcs.json'' 86400 15 2 (1 / 2) False
     \<lparr> cache_on_disk = Content (JObj
          [(''fetched_at'', JInt 1700000000), (''ttl'', JInt 86400),
           (''data'', JObj [(''43114'', JStr ''Avalanche C-Chain'')])]),
       clock_at_check = 1700090000, network = (\<lambda>a. Transient),
       clock_at_write = 1700090001, write_succeeds = True \<rparr>)
     = []"
proof -
  let ?env = "\<lparr> cache_on_disk = Content (JObj
          [(''fetched_at'', JInt 1700000000), (''ttl'', JInt 86400),
           (''data'', JObj [(''43114'', JStr ''Avalanche C-Chain'')])]),
       clock_at_check = 1700090000, network = (\<lambda>a. Transient),
       clock_at_write = 1700090001, write_succeeds = True \<rparr>"
  have rc: "read_cache (cache_on_disk ?env) =
              \<lparr> cached_map = [(43114, ''Avalanche C-Chain'')],
                cached_fetched_at = Some 1700000000, cached_ttl = Some 86400 \<rparr>"
    by (simp add: read_cache_def dict_get_def cache_item_def py_isdigit_def is_digit_char_def
        py_strip_def is_space_char_def py_int_of_str_def value_of_field_def)
  have stale: "\<not> cache_is_fresh (read_cache (cache_on_disk ?env)) 86400 (clock_at_check ?env)"
    unfolding rc by (simp add: cache_is_fresh_def effective_ttl_def py_int_of_float_def)
  have net: "\<forall>a. 1 \<le> a \<and> a \<le> 2 + 1 \<longrightarrow> network ?env a = Transient"
    by simp
  have failed: "fst (fetch_json_with_retries (network ?env) 2 (1 / 2)) = Inl TransportError"
    by (simp add: fetch_json_with_retries_def upto.simps)
  from fetch_failure_falls_back [OF stale, of 2 "1 / 2" TransportError
      "''https://chainlist.org/rpcs.json''" 15 True] net failed
  have "returned_map (load_chainlist_name_map ''https://chainlist.org/rpcs.json'' 86400 15 2 (1 / 2) True ?env)
          = [(43114, ''Avalanche C-Chain'')] \<and>
        fetch_attempts (load_chainlist_name_map ''https://chainlist.org/rpcs.json'' 86400 15 2 (1 / 2) True ?env)
          = 3 \<and>
        written (load_chainlist_name_map ''https://chainlist.org/rpcs.json'' 86400 15 2 (1 / 2) True ?env)
          = None"
    unfolding rc by simp
  moreover from fetch_failure_falls_back [OF stale, of 2 "1 / 2" TransportError
      "''https://chainlist.org/rpcs.json''" 15 False] net failed
  have "returned_map (load_chainlist_name_map ''https://chainlist.org/rpcs.json'' 86400 15 2 (1 / 2) False ?env)
          = []"
    by simp
  ultimately show ?thesis by simp
qed

subsection \<open>Cache miss\<close>

text \<open>
  C10. For every cache file whose deserialized mapping is empty or whose fetch timestamp
  is absent, whatever the clock reading and the TTLs are (so also when the recorded age is
  within the TTL), the resolver does what it does without a cache: its result is that of
  the fetch block, and for a number of retries that is not negative at least one fetch
  attempt is made.
\<close>

theorem empty_or_undated_cache_is_a_miss:
  assumes "cached_map (read_cache (cache_on_disk env)) = []
           \<or> cached_fetched_at (read_cache (cache_on_disk env)) = None"
  shows "load_chainlist_name_map url ttl_s timeout_s retries backoff_base_s allow_stale_cache env
           = fetch_or_fall_back url (read_cache (cache_on_disk env)) ttl_s retries
               backoff_base_s allow_stale_cache env \<and>
         (0 \<le> retries \<longrightarrow>
            1 \<le> fetch_attempts (load_chainlist_name_map url ttl_s timeout_s retries
                                   backoff_base_s allow_stale_cache env))"
proof -
  from assms
  have "\<not> cache_is_fresh (read_cache (cache_on_disk env)) ttl_s (clock_at_check env)"
    by (auto simp add: cache_is_fresh_def)
  then have load:
    "load_chainlist_name_map url ttl_s timeout_s retries backoff_base_s allow_stale_cache env
       = fetch_or_fall_back url (read_cache (cache_on_disk env)) ttl_s retries
           backoff_base_s allow_stale_cache env"
    by (simp add: load_chainlist_name_map_def)
  show ?thesis
    unfolding load using fetch_attempts_pos [of retries "network env" backoff_base_s]
    by (simp add: fetch_or_fall_back_attempts)
qed

text \<open>
  A cache file written at the time of the run, with a TTL of one day, in which no entry
  survives validation (one key is not a number, one name is blank): the network is asked,
  once, and the fetched names are returned.
\<close>

theorem empty_or_undated_cache_is_a_miss_witness:
  "cached_map (read_cache (Content (JObj
      [(''fetched_at'', JInt 1700000000), (''ttl'', JInt 86400),
       (''data'', JObj [(''mainnet'', JStr ''Ethereum Mainnet''), (''56'', JStr ''  '')])]))) = [] \<and>
   fetch_attempts (load_chainlist_name_map ''https://chainlist.org/rpcs.json'' 86400 15 2 (1 / 2) False
     \<lparr> cache_on_disk = Content (JObj
          [(''fetched_at'', JInt 1700000000), (''ttl'', JInt 86400),
           (''data'', JObj [(''mainnet'', JStr ''Ethereum Mainnet''), (''56'', JStr ''  '')])]),
       clock_at_check = 1700000000,
       network = (\<lambda>a. Payload (JList [JObj [(''chainId'', JInt 1), (''name'', JStr ''Ethereum Mainnet'')]])),
       clock_at_write = 1700000001, write_succeeds = True \<rparr>) = 1 \<and>
   returned_map (load_chainlist_name_map ''https://chainlist.org/rpcs.json'' 86400 15 2 (1 / 2) False
     \<lparr> cache_on_disk = Content (JObj
          [(''fetched_at'', JInt 1700000000), (''ttl'', JInt 86400),
           (''data'', JObj [(''mainnet'', JStr ''Ethereum Mainnet''), (''56'', JStr ''  '')])]),
       clock_at_check = 1700000000,
       network = (\<lambda>a. Payload (JList [JObj [(''chainId'', JInt 1), (''name'', JStr ''Ethereum Mainnet'')]])),
       clock_at_write = 1700000001, write_succeeds = True \<rparr>) = [(1, ''Ethereum Mainnet'')]"
proof -
  let ?env = "\<lparr> cache_on_disk = Content (JObj
          [(''fetched_at'', JInt 1700000000), (''ttl'', JInt 86400),
           (''data'', JObj [(''mainnet'', JStr ''Ethereum Mainnet''), (''56'', JStr ''  '')])]),
       clock_at_check = 1700000000,
       network = (\<lambda>a. Payload (JList [JObj [(''chainId'', JInt 1), (''name'', JStr ''Ethereum Mainnet'')]])),
       clock_at_write = 1700000001, write_succeeds = True \<rparr>"
  have rc: "read_cache (cache_on_disk ?env) =
              \<lparr> cached_map = [], cached_fetched_at = Some 1700000000, cached_ttl = Some 86400 \<rparr>"
    by (simp add: read_cache_def dict_get_def cache_item_def py_isdigit_def is_digit_char_def
        py_strip_def is_space_char_def py_int_of_str_def value_of_field_def)
  have miss: "cached_map (read_cache (cache_on_disk ?env)) = []
              \<or> cached_fetched_at (read_cache (cache_on_disk ?env)) = None"
    unfolding rc by simp
  have fetched: "fetch_or_fall_back ''https://chainlist.org/rpcs.json''
                   (read_cache (cache_on_disk ?env)) 86400 2 (1 / 2) False ?env
      = \<lparr> returned_map = [(1, ''Ethereum Mainnet'')], fetch_attempts = 1, sleeps = [],
          written = Some \<lparr> source = ''https://chainlist.org/rpcs.json'', fetched_at = 1700000001,
                           ttl = 86400, data = [(1, ''Ethereum Mainnet'')] \<rparr> \<rparr>"
    by (simp add: fetch_or_fall_back_def fetch_json_with_retries_def upto.simps
        build_chainid_to_name_def build_list_def build_item_def dict_get_def py_or_def
        py_strip_def is_space_char_def py_int_of_float_def Let_def)
  from empty_or_undated_cache_is_a_miss [OF miss, of "''https://chainlist.org/rpcs.json''"
      86400 15 2 "1 / 2" False]
  have "load_chainlist_name_map ''https://chainlist.org/rpcs.json'' 86400 15 2 (1 / 2) False ?env
          = fetch_or_fall_back ''https://chainlist.org/rpcs.json''
              (read_cache (cache_on_disk ?env)) 86400 2 (1 / 2) False ?env"
    by simp
  with fetched rc show ?thesis
    by simp
qed

end
